theory Spec2Isabelle
  imports
    Complex_Main
    "HOL-Library.Char_ord"
    "HOL-Library.List_Lexorder"
    "HOL-Library.Product_Lexorder"
begin

section \<open>Transaction comparison dashboard (app.py)\<close>

text \<open>
  The development embeds the aggregation-and-comparison code of \<^verbatim>\<open>src/app.py\<close>:
  \<^verbatim>\<open>load_data\<close>, \<^verbatim>\<open>get_week_label\<close>, \<^verbatim>\<open>compare_totals\<close>,
  \<^verbatim>\<open>region_bank_comparison\<close> and the two script blocks that build the region and
  the state tables.

  Conventions of the embedding.
  \<^item> Numbers are exact rationals; the binary rounding of IEEE doubles is not modelled.
    The special values a pandas float column can hold (infinities and NaN) are modelled,
    since the code replaces some of them.
  \<^item> Strings are \<^typ>\<open>string\<close>; whitespace and upper-casing are those of Python on
    ASCII text.
  \<^item> A sheet is a list of rows. The source reads the columns REGION, BANK, STATE, VOLUME
    and VALUE by name and the first column by position; the order of the columns in a
    sheet is not fixed by the source, so a row carries the cell of column 0 next to the
    five named cells.
  \<^item> The period labels only name columns; the columns of period 1 and period 2 are the
    fields with suffix \<open>_1\<close> and \<open>_2\<close> (the two labels are taken to differ).
  \<^item> An exception of the Python code is a value \<open>Inl e\<close>.
\<close>

subsection \<open>Strings\<close>

definition isspace :: "char \<Rightarrow> bool" where
  \<comment> \<open>Python's \<^verbatim>\<open>str.isspace\<close> on ASCII: TAB, LF, VT, FF, CR, FS, GS, RS, US and space.\<close>
  "isspace c = (let n = of_char c :: nat in (9 \<le> n \<and> n \<le> 13) \<or> (28 \<le> n \<and> n \<le> 32))"

definition strip :: "string \<Rightarrow> string" where
  \<comment> \<open>\<^verbatim>\<open>s.strip()\<close>\<close>
  "strip s = rev (dropWhile isspace (rev (dropWhile isspace s)))"

definition upper_char :: "char \<Rightarrow> char" where
  "upper_char c = (let n = of_char c :: nat in if 97 \<le> n \<and> n \<le> 122 then char_of (n - 32) else c)"

definition upper :: "string \<Rightarrow> string" where
  \<comment> \<open>\<^verbatim>\<open>s.upper()\<close>\<close>
  "upper s = map upper_char s"

fun split_scan :: "string \<Rightarrow> string \<Rightarrow> string list" where
  \<comment> \<open>The scanner behind \<^verbatim>\<open>s.split()\<close>: the first argument is the token read so far,
      reversed.\<close>
  "split_scan tok [] = (if tok = [] then [] else [rev tok])"
| "split_scan tok (c # cs) =
     (if isspace c then (if tok = [] then split_scan [] cs else rev tok # split_scan [] cs)
      else split_scan (c # tok) cs)"

definition split :: "string \<Rightarrow> string list" where
  \<comment> \<open>\<^verbatim>\<open>s.split()\<close>: the maximal runs of non-whitespace characters.\<close>
  "split s = split_scan [] s"

definition basename :: "string \<Rightarrow> string" where
  \<comment> \<open>\<^verbatim>\<open>os.path.basename\<close>: what follows the last slash.\<close>
  "basename p = rev (takeWhile (\<lambda>c. c \<noteq> CHR ''/'') (rev p))"

subsection \<open>Sheets and the loader\<close>

datatype cell = Str string | Num rat | Null

datatype error = IndexError | SheetNotFound

record raw_row =
  col0 :: cell
  REGION :: "string option"
  BANK :: "string option"
  STATE :: "string option"
  VOLUME :: "rat option"
  VALUE :: "rat option"

type_synonym frame = "raw_row list"

type_synonym workbook = "string \<Rightarrow> frame option"

fun is_TOTAL :: "cell \<Rightarrow> bool" where
  \<comment> \<open>\<^verbatim>\<open>str(c).strip() == "TOTAL"\<close>. The text of a number, and \<^verbatim>\<open>nan\<close> for an empty cell,
      never strip to TOTAL.\<close>
  "is_TOTAL (Str s) = (strip s = ''TOTAL'')"
| "is_TOTAL (Num r) = False"
| "is_TOTAL Null = False"

definition load_data :: "workbook \<Rightarrow> string \<Rightarrow> error + frame" where
  "load_data file sheet_name =
     (case file sheet_name of
        None \<Rightarrow> Inl SheetNotFound
      | Some df \<Rightarrow>
          if df = [] then Inl IndexError
          else if is_TOTAL (col0 (last df)) then Inr (butlast df)
          else Inr df)"

subsection \<open>Period labels\<close>

definition get_week_label :: "string option \<Rightarrow> string \<Rightarrow> error + string" where
  \<comment> \<open>The argument is the name of the uploaded file, \<open>None\<close> when nothing was uploaded.\<close>
  "get_week_label uploaded_file fallback =
     (case uploaded_file of
        None \<Rightarrow> Inr fallback
      | Some name \<Rightarrow>
          (case split (basename name) of
             [] \<Rightarrow> Inl IndexError
           | first_part # _ \<Rightarrow> Inr (if first_part \<noteq> [] then upper first_part else fallback)))"

subsection \<open>Numbers\<close>

definition round_half_even :: "rat \<Rightarrow> int" where
  \<comment> \<open>\<^verbatim>\<open>round(x)\<close> and \<^verbatim>\<open>Series.round(0).astype(int)\<close>: to the nearest integer, a tie
      to the even one.\<close>
  "round_half_even x =
     (let f = \<lfloor>x\<rfloor>; d = x - of_int f
      in if d < 1 / 2 then f else if 1 / 2 < d then f + 1 else if even f then f else f + 1)"

definition round2 :: "rat \<Rightarrow> rat" where
  \<comment> \<open>\<^verbatim>\<open>round(x, 2)\<close>\<close>
  "round2 x = of_int (round_half_even (x * 100)) / 100"

datatype pyfloat = Fin rat | PInf | NInf | NaN

definition fdiv :: "rat \<Rightarrow> rat \<Rightarrow> pyfloat" where
  \<comment> \<open>Division of two float columns, element by element: a zero divisor gives an
      infinity with the sign of the dividend, and NaN for 0 / 0.\<close>
  "fdiv a b =
     (if b \<noteq> 0 then Fin (a / b)
      else if 0 < a then PInf else if a < 0 then NInf else NaN)"

fun fmul :: "pyfloat \<Rightarrow> rat \<Rightarrow> pyfloat" where
  "fmul (Fin x) c = Fin (x * c)"
| "fmul PInf c = (if 0 < c then PInf else if c < 0 then NInf else NaN)"
| "fmul NInf c = (if 0 < c then NInf else if c < 0 then PInf else NaN)"
| "fmul NaN c = NaN"

fun replace_inf :: "pyfloat \<Rightarrow> pyfloat" where
  \<comment> \<open>\<^verbatim>\<open>.replace([float("inf"), -float("inf")], 0)\<close>\<close>
  "replace_inf PInf = Fin 0"
| "replace_inf NInf = Fin 0"
| "replace_inf x = x"

fun fadd :: "pyfloat \<Rightarrow> pyfloat \<Rightarrow> pyfloat" where
  "fadd (Fin x) (Fin y) = Fin (x + y)"
| "fadd NaN _ = NaN"
| "fadd _ NaN = NaN"
| "fadd PInf NInf = NaN"
| "fadd NInf PInf = NaN"
| "fadd PInf _ = PInf"
| "fadd _ PInf = PInf"
| "fadd NInf _ = NInf"
| "fadd _ NInf = NInf"

definition nansum :: "pyfloat list \<Rightarrow> pyfloat" where
  \<comment> \<open>\<^verbatim>\<open>Series.sum()\<close> of a float column: NaN entries are skipped.\<close>
  "nansum xs = foldl fadd (Fin 0) (filter (\<lambda>x. x \<noteq> NaN) xs)"

definition pd_sum :: "rat option list \<Rightarrow> rat" where
  \<comment> \<open>\<^verbatim>\<open>Series.sum()\<close> of a column read from a sheet: empty cells are skipped.\<close>
  "pd_sum xs = sum_list (map (\<lambda>x. case x of None \<Rightarrow> 0 | Some v \<Rightarrow> v) xs)"

subsection \<open>Grouping and joining\<close>

definition groupby_sum :: "(raw_row \<Rightarrow> 'k::linorder option) \<Rightarrow> frame \<Rightarrow> ('k \<times> rat \<times> rat) list" where
  \<comment> \<open>\<^verbatim>\<open>df.groupby(keys)[["VOLUME", "VALUE"]].sum()\<close>: one row per key in key order; a row
      of \<open>df\<close> whose key has an empty cell belongs to no group.\<close>
  "groupby_sum keyf df =
     map (\<lambda>k. (k, pd_sum (map VOLUME (filter (\<lambda>r. keyf r = Some k) df)),
                   pd_sum (map VALUE (filter (\<lambda>r. keyf r = Some k) df))))
         (sort (remdups (List.map_filter keyf df)))"

definition merge_outer ::
  "('k::linorder \<times> rat \<times> rat) list \<Rightarrow> ('k \<times> rat \<times> rat) list
     \<Rightarrow> ('k \<times> (rat \<times> rat) option \<times> (rat \<times> rat) option) list" where
  \<comment> \<open>\<^verbatim>\<open>pd.merge(agg1, agg2, on=keys, how="outer")\<close> of two frames with unique keys: the
      measures of a side that lacks the key are missing.\<close>
  "merge_outer agg1 agg2 =
     map (\<lambda>k. (k, map_of agg1 k, map_of agg2 k)) (sort (remdups (map fst agg1 @ map fst agg2)))"

record 'k joined =
  key :: 'k
  VOLUME_1 :: rat
  VALUE_1 :: rat
  VOLUME_2 :: rat
  VALUE_2 :: rat

definition fillna0 :: "'k \<times> (rat \<times> rat) option \<times> (rat \<times> rat) option \<Rightarrow> 'k joined" where
  \<comment> \<open>\<^verbatim>\<open>.fillna(0)\<close> on a row of the merged frame\<close>
  "fillna0 m =
     (case m of (k, s1, s2) \<Rightarrow>
        (let p1 = (case s1 of None \<Rightarrow> (0, 0) | Some p \<Rightarrow> p);
             p2 = (case s2 of None \<Rightarrow> (0, 0) | Some p \<Rightarrow> p)
         in \<lparr>key = k, VOLUME_1 = fst p1, VALUE_1 = snd p1, VOLUME_2 = fst p2, VALUE_2 = snd p2\<rparr>))"

definition join_periods :: "(raw_row \<Rightarrow> 'k::linorder option) \<Rightarrow> frame \<Rightarrow> frame \<Rightarrow> 'k joined list" where
  \<comment> \<open>The three steps every level repeats: group both periods, merge, fill.\<close>
  "join_periods keyf df1 df2 = map fillna0 (merge_outer (groupby_sum keyf df1) (groupby_sum keyf df2))"

subsection \<open>Weekly totals\<close>


definition pct_of_totals :: "int \<Rightarrow> int \<Rightarrow> rat" where
  \<comment> \<open>\<^verbatim>\<open>round((diff / base * 100), 2) if base else 0\<close> on Python integers\<close>
  "pct_of_totals diff base = (if base \<noteq> 0 then round2 (of_int diff / of_int base * 100) else 0)"



subsection \<open>Region and bank\<close>

record region_bank_row =
  REGION_BANK :: "string \<times> string"
  VOLUME_w1 :: int
  VALUE_w1 :: int
  VOLUME_w2 :: int
  VALUE_w2 :: int
  VOLUME_DIFF :: int
  VALUE_DIFF :: int
  VOLUME_pct :: rat
  VALUE_pct :: rat

definition region_bank_key :: "raw_row \<Rightarrow> (string \<times> string) option" where
  \<comment> \<open>The key of \<^verbatim>\<open>groupby(["REGION", "BANK"])\<close>: none when either cell is empty.\<close>
  "region_bank_key r =
     (case REGION r of
        None \<Rightarrow> None
      | Some a \<Rightarrow> (case BANK r of None \<Rightarrow> None | Some b \<Rightarrow> Some (a, b)))"

definition pct_of_row :: "rat \<Rightarrow> rat \<Rightarrow> rat" where
  \<comment> \<open>The lambda of \<^verbatim>\<open>merged.apply\<close>: \<^verbatim>\<open>round((diff / base * 100), 2) if base else 0\<close>\<close>
  "pct_of_row diff base = (if base \<noteq> 0 then round2 (diff / base * 100) else 0)"

definition region_bank_columns :: "(string \<times> string) joined \<Rightarrow> region_bank_row" where
  \<comment> \<open>Lines 128 to 140 on one row of \<open>merged\<close>: the differences and the percentages are
      computed from the filled sums, then six columns are rounded to integers.\<close>
  "region_bank_columns m =
     (let volume_diff = VOLUME_2 m - VOLUME_1 m;
          value_diff = VALUE_2 m - VALUE_1 m;
          volume_pct = pct_of_row volume_diff (VOLUME_1 m);
          value_pct = pct_of_row value_diff (VALUE_1 m)
      in \<lparr>REGION_BANK = key m,
          VOLUME_w1 = round_half_even (VOLUME_1 m), VALUE_w1 = round_half_even (VALUE_1 m),
          VOLUME_w2 = round_half_even (VOLUME_2 m), VALUE_w2 = round_half_even (VALUE_2 m),
          VOLUME_DIFF = round_half_even volume_diff, VALUE_DIFF = round_half_even value_diff,
          VOLUME_pct = volume_pct, VALUE_pct = value_pct\<rparr>)"


subsection \<open>Regions\<close>

record diff_row =
  label :: string
  VOL_DIFF :: rat
  VOL_pctCHANGE :: pyfloat
  VAL_DIFF :: rat
  VAL_pctCHANGE :: pyfloat

definition pct_change :: "rat \<Rightarrow> rat \<Rightarrow> pyfloat" where
  \<comment> \<open>\<^verbatim>\<open>((diff / base) * 100).replace([float("inf"), -float("inf")], 0)\<close> on one row\<close>
  "pct_change diff base = replace_inf (fmul (fdiv diff base) 100)"

definition diff_columns :: "string joined \<Rightarrow> diff_row" where
  \<comment> \<open>The four derived columns of a region or state comparison, with the key.\<close>
  "diff_columns m =
     (let vdiff = VOLUME_2 m - VOLUME_1 m; adiff = VALUE_2 m - VALUE_1 m
      in \<lparr>label = key m,
          VOL_DIFF = vdiff, VOL_pctCHANGE = pct_change vdiff (VOLUME_1 m),
          VAL_DIFF = adiff, VAL_pctCHANGE = pct_change adiff (VALUE_1 m)\<rparr>)"

definition diff_total :: "diff_row list \<Rightarrow> diff_row" where
  \<comment> \<open>The TOTAL row of a difference table: every column is summed.\<close>
  "diff_total t =
     \<lparr>label = ''TOTAL'',
      VOL_DIFF = sum_list (map VOL_DIFF t), VOL_pctCHANGE = nansum (map VOL_pctCHANGE t),
      VAL_DIFF = sum_list (map VAL_DIFF t), VAL_pctCHANGE = nansum (map VAL_pctCHANGE t)\<rparr>"

definition pair_total :: "(string \<times> rat \<times> rat) list \<Rightarrow> string \<times> rat \<times> rat" where
  \<comment> \<open>The TOTAL row of the volume table and of the value table.\<close>
  "pair_total t = (''TOTAL'', sum_list (map (\<lambda>r. fst (snd r)) t), sum_list (map (\<lambda>r. snd (snd r)) t))"

definition fillna_REGION :: "frame \<Rightarrow> frame" where
  \<comment> \<open>\<^verbatim>\<open>df["REGION"] = df["REGION"].fillna("UNKNOWN")\<close>\<close>
  "fillna_REGION df =
     map (\<lambda>r. r\<lparr>REGION := Some (case REGION r of None \<Rightarrow> ''UNKNOWN'' | Some s \<Rightarrow> s)\<rparr>) df"

record region_tables =
  region_comparison :: "string joined list"
  volume_table :: "(string \<times> rat \<times> rat) list"
  value_table :: "(string \<times> rat \<times> rat) list"
  diff_table :: "diff_row list"

definition region_analysis :: "workbook \<Rightarrow> workbook \<Rightarrow> error + region_tables" where
  \<comment> \<open>The block "Region analysis" of the script, for two uploaded files.\<close>
  "region_analysis week1_file week2_file =
     (case load_data week1_file ''WITH 6010'' of
        Inl e \<Rightarrow> Inl e
      | Inr df1 \<Rightarrow>
          (case load_data week2_file ''WITH 6010'' of
             Inl e \<Rightarrow> Inl e
           | Inr df2 \<Rightarrow>
               (let rc = join_periods REGION (fillna_REGION df1) (fillna_REGION df2);
                    volumes = map (\<lambda>m. (key m, VOLUME_1 m, VOLUME_2 m)) rc;
                    values = map (\<lambda>m. (key m, VALUE_1 m, VALUE_2 m)) rc;
                    diffs = map diff_columns rc
                in Inr \<lparr>region_comparison = rc,
                        volume_table = volumes @ [pair_total volumes],
                        value_table = values @ [pair_total values],
                        diff_table = diffs @ [diff_total diffs]\<rparr>)))"

subsection \<open>States\<close>

definition state_mapping :: "(string \<times> string) list" where
  "state_mapping =
     [(''AB'', ''Abia''), (''AD'', ''Adamawa''), (''AK'', ''Akwa Ibom''), (''AN'', ''Anambra''),
      (''BA'', ''Bauchi''), (''BY'', ''Bayelsa''), (''BE'', ''Benue''), (''BO'', ''Borno''),
      (''CR'', ''Cross River''), (''DE'', ''Delta''), (''EB'', ''Ebonyi''), (''ED'', ''Edo''),
      (''EK'', ''Ekiti''), (''EN'', ''Enugu''), (''FC'', ''FCT - Abuja''), (''GO'', ''Gombe''),
      (''IM'', ''Imo''), (''JI'', ''Jigawa''), (''KD'', ''Kaduna''), (''KN'', ''Kano''),
      (''KT'', ''Katsina''), (''KE'', ''Kebbi''), (''KO'', ''Kogi''), (''KW'', ''Kwara''),
      (''LA'', ''Lagos''), (''NA'', ''Nasarawa''), (''NI'', ''Niger''), (''OG'', ''Ogun''),
      (''ON'', ''Ondo''), (''OS'', ''Osun''), (''OY'', ''Oyo''), (''PL'', ''Plateau''),
      (''RI'', ''Rivers''), (''SO'', ''Sokoto''), (''TA'', ''Taraba''), (''YO'', ''Yobe''),
      (''ZA'', ''Zamfara'')]"

definition map_STATE :: "frame \<Rightarrow> frame" where
  \<comment> \<open>\<^verbatim>\<open>df["STATE"].fillna("UNKNOWN")\<close>, then
      \<^verbatim>\<open>df["STATE"].map(state_mapping).fillna(df["STATE"])\<close>\<close>
  "map_STATE df =
     map (\<lambda>r. let s = (case STATE r of None \<Rightarrow> ''UNKNOWN'' | Some c \<Rightarrow> c)
              in r\<lparr>STATE := Some (case map_of state_mapping s of None \<Rightarrow> s | Some n \<Rightarrow> n)\<rparr>) df"

definition state_analysis :: "workbook \<Rightarrow> workbook \<Rightarrow> error + diff_row list" where
  \<comment> \<open>The block "State level analysis" of the script: the final \<open>state_comparison\<close>.\<close>
  "state_analysis week1_file week2_file =
     (case load_data week1_file ''WITH 6010'' of
        Inl e \<Rightarrow> Inl e
      | Inr df1 \<Rightarrow>
          (case load_data week2_file ''WITH 6010'' of
             Inl e \<Rightarrow> Inl e
           | Inr df2 \<Rightarrow>
               (let sc = map diff_columns (join_periods STATE (map_STATE df1) (map_STATE df2))
                in Inr (sc @ [diff_total sc]))))"

subsection \<open>Writing down inputs\<close>

definition workbook_of :: "(string \<times> frame) list \<Rightarrow> workbook" where
  \<comment> \<open>An uploaded file, given by its sheets.\<close>
  "workbook_of sheets = map_of sheets"

definition data_row :: "string \<Rightarrow> string \<Rightarrow> string \<Rightarrow> rat \<Rightarrow> rat \<Rightarrow> raw_row" where
  \<comment> \<open>A row with every cell filled, in a sheet whose first column is REGION.\<close>
  "data_row r b s v a =
     \<lparr>col0 = Str r, REGION = Some r, BANK = Some b, STATE = Some s, VOLUME = Some v, VALUE = Some a\<rparr>"

definition total_row :: "string \<Rightarrow> rat \<Rightarrow> rat \<Rightarrow> raw_row" where
  \<comment> \<open>A summary row as a spreadsheet has it: a caption in the first column, no bank and
      no state, and the two sums.\<close>
  "total_row c v a =
     \<lparr>col0 = Str c, REGION = Some c, BANK = None, STATE = None, VOLUME = Some v, VALUE = Some a\<rparr>"

definition previous_week :: workbook where
  \<comment> \<open>A file for period 1: two regions, and a summary row that the loader drops.\<close>
  "previous_week = workbook_of
     [(''WITH 6010'', [data_row ''SOUTH'' ''X'' ''LA'' 100 1000, data_row ''NORTH'' ''Y'' ''KN'' 4 40,
                       total_row ''TOTAL'' 104 1040]),
      (''WITHOUT 6010'', [data_row ''SOUTH'' ''X'' ''LA'' 60 600])]"

definition current_week :: workbook where
  \<comment> \<open>A file for period 2: the two regions again and one that period 1 lacks.\<close>
  "current_week = workbook_of
     [(''WITH 6010'', [data_row ''SOUTH'' ''X'' ''LA'' 150 900, data_row ''NORTH'' ''Y'' ''KN'' 4 50,
                       data_row ''WEST'' ''Y'' ''OG'' 20 5]),
      (''WITHOUT 6010'', [data_row ''SOUTH'' ''X'' ''LA'' 90 300])]"

section \<open>Properties\<close>

subsection \<open>Strings and rounding\<close>

lemma isspace_TOTAL [simp]: "\<not> isspace CHR ''T''" "\<not> isspace CHR ''L''"
  by (simp_all add: isspace_def)




lemma split_scan_Nil_iff: "split_scan tok s = [] \<longleftrightarrow> tok = [] \<and> (\<forall>c\<in>set s. isspace c)"
  by (induction s arbitrary: tok) auto

lemma split_scan_nonempty: "t \<in> set (split_scan tok s) \<Longrightarrow> t \<noteq> []"
  by (induction s arbitrary: tok) (auto split: if_splits)

lemma split_scan_hd_tok:
  "tok \<noteq> [] \<Longrightarrow> hd (split_scan tok s) = rev tok @ takeWhile (\<lambda>c. \<not> isspace c) s"
  by (induction s arbitrary: tok) auto

lemma split_scan_hd:
  "\<exists>c\<in>set s. \<not> isspace c \<Longrightarrow>
   hd (split_scan [] s) = takeWhile (\<lambda>c. \<not> isspace c) (dropWhile isspace s)"
  by (induction s) (auto simp: split_scan_hd_tok)




subsection \<open>The loader\<close>

text \<open>
  Claim C10. \<^verbatim>\<open>load_data\<close> reads the first cell of the last row before anything else.
  A sheet that exists and has no data row makes it fail with an index error, and no empty
  table is returned; a sheet with at least one row is always loaded.
\<close>

theorem load_data_empty_sheet:
  assumes "file sheet_name = Some df"
  shows "(df = [] \<longrightarrow> load_data file sheet_name = Inl IndexError) \<and>
         (df \<noteq> [] \<longrightarrow> (\<exists>rows. load_data file sheet_name = Inr rows))"
  using assms by (simp add: load_data_def)

theorem load_data_empty_sheet_witness:
  "workbook_of [(''WITH 6010'', [])] ''WITH 6010'' = Some [] \<and>
   load_data (workbook_of [(''WITH 6010'', [])]) ''WITH 6010'' = Inl IndexError \<and>
   workbook_of [(''WITH 6010'', [data_row ''SOUTH'' ''X'' ''LA'' 100 1000])] ''WITH 6010''
     = Some [data_row ''SOUTH'' ''X'' ''LA'' 100 1000] \<and>
   (\<exists>rows. load_data (workbook_of [(''WITH 6010'', [data_row ''SOUTH'' ''X'' ''LA'' 100 1000])])
              ''WITH 6010'' = Inr rows)"
proof -
  have h: "workbook_of [(''WITH 6010'', [])] ''WITH 6010'' = Some []"
    and h': "workbook_of [(''WITH 6010'', [data_row ''SOUTH'' ''X'' ''LA'' 100 1000])] ''WITH 6010''
               = Some [data_row ''SOUTH'' ''X'' ''LA'' 100 1000]"
    by (simp_all add: workbook_of_def)
  show ?thesis
    using h h'
      load_data_empty_sheet [of "workbook_of [(''WITH 6010'', [])]" "''WITH 6010''" "[]"]
      load_data_empty_sheet
        [of "workbook_of [(''WITH 6010'', [data_row ''SOUTH'' ''X'' ''LA'' 100 1000])]"
            "''WITH 6010''" "[data_row ''SOUTH'' ''X'' ''LA'' 100 1000]"]
    by simp
qed




subsection \<open>Period labels\<close>


text \<open>
  What holds of the label: no file gives the fallback; a name fails exactly when its base
  name has no token; any other name gives the first token in capitals, never the fallback.
\<close>

lemma get_week_label_no_file: "get_week_label None fallback = Inr fallback"
  by (simp add: get_week_label_def)

lemma get_week_label_example:
  "get_week_label (Some ''WEEK_4 export.xlsx'') ''PREVIOUS_WEEK'' = Inr ''WEEK_4''"
  by code_simp

lemma get_week_label_raises_iff:
  "get_week_label (Some name) fallback = Inl IndexError \<longleftrightarrow> (\<forall>c\<in>set (basename name). isspace c)"
  using split_scan_Nil_iff [of "[]" "basename name"]
  by (auto simp: get_week_label_def split_def split: list.splits)

lemma get_week_label_first_token:
  assumes "\<exists>c\<in>set (basename name). \<not> isspace c"
  shows "get_week_label (Some name) fallback =
           Inr (upper (takeWhile (\<lambda>c. \<not> isspace c) (dropWhile isspace (basename name))))"
proof -
  from assms have ne: "split (basename name) \<noteq> []"
    by (auto simp: split_def split_scan_Nil_iff)
  then obtain t ts where sp: "split (basename name) = t # ts"
    by (cases "split (basename name)") auto
  then have "t \<noteq> []"
    using split_scan_nonempty [of t "[]" "basename name"] by (simp add: split_def)
  moreover have "t = takeWhile (\<lambda>c. \<not> isspace c) (dropWhile isspace (basename name))"
    using split_scan_hd [OF assms] sp by (simp add: split_def)
  ultimately show ?thesis
    by (simp add: get_week_label_def sp)
qed

lemma get_week_label_never_falls_back:
  "get_week_label (Some name) fallback = Inr l \<Longrightarrow> l \<noteq> [] \<and> (\<exists>t. t \<in> set (split (basename name)) \<and> l = upper t)"
  using split_scan_nonempty [of _ "[]" "basename name"]
  by (auto simp: get_week_label_def split_def upper_def split: list.splits if_splits)

subsection \<open>Percentages\<close>

lemma pct_of_row_zero: "pct_of_row d 0 = 0"
  by (simp add: pct_of_row_def)

lemma pct_of_totals_zero: "pct_of_totals d 0 = 0"
  by (simp add: pct_of_totals_def)

lemma pct_change_zero_base: "pct_change d 0 = (if d = 0 then NaN else Fin 0)"
  by (simp add: pct_change_def fdiv_def)


lemma pct_change_not_inf: "pct_change d b \<noteq> PInf \<and> pct_change d b \<noteq> NInf"
  by (simp add: pct_change_def fdiv_def)

lemma foldl_fadd_Fin:
  "\<forall>x\<in>set xs. x \<noteq> PInf \<and> x \<noteq> NInf \<Longrightarrow>
   foldl fadd (Fin a) (filter (\<lambda>x. x \<noteq> NaN) xs)
     = Fin (a + (\<Sum>x\<leftarrow>xs. case x of Fin v \<Rightarrow> v | _ \<Rightarrow> 0))"
proof (induction xs arbitrary: a)
  case Nil
  then show ?case by simp
next
  case (Cons x xs)
  then show ?case
    by (cases x) (simp_all add: add.assoc)
qed

lemma nansum_Fin_or_NaN:
  "\<forall>x\<in>set xs. x \<noteq> PInf \<and> x \<noteq> NInf \<Longrightarrow>
   nansum xs = Fin (\<Sum>x\<leftarrow>xs. case x of Fin v \<Rightarrow> v | _ \<Rightarrow> 0)"
  using foldl_fadd_Fin [of xs 0] by (simp add: nansum_def)

subsection \<open>Grouping\<close>

lemma set_map_filter: "set (List.map_filter f xs) = {k. \<exists>r\<in>set xs. f r = Some k}"
  by (induction xs) (auto simp: List.map_filter_simps split: option.splits)

lemma groupby_sum_keys: "map fst (groupby_sum keyf df) = sort (remdups (List.map_filter keyf df))"
  by (simp add: groupby_sum_def comp_def)

lemma groupby_sum_distinct: "distinct (map fst (groupby_sum keyf df))"
  by (simp add: groupby_sum_keys)

lemma groupby_sum_key_set: "fst ` set (groupby_sum keyf df) = {k. \<exists>r\<in>set df. keyf r = Some k}"
  using arg_cong [OF groupby_sum_keys [of keyf df], of set] by (simp add: set_map_filter)

lemma sum_list_delta:
  fixes c :: rat
  assumes "distinct ks"
  shows "(\<Sum>k\<leftarrow>ks. if x = Some k then c else 0) = (if \<exists>k\<in>set ks. x = Some k then c else 0)"
  using assms by (induction ks) auto

lemma sum_list_groups:
  fixes f :: "raw_row \<Rightarrow> rat"
  assumes "distinct ks" and "\<forall>r\<in>set df. \<forall>k. keyf r = Some k \<longrightarrow> k \<in> set ks"
  shows "(\<Sum>k\<leftarrow>ks. \<Sum>r\<leftarrow>filter (\<lambda>r. keyf r = Some k) df. f r)
           = (\<Sum>r\<leftarrow>filter (\<lambda>r. keyf r \<noteq> None) df. f r)"
  using assms(2)
proof (induction df)
  case Nil
  then show ?case by simp
next
  case (Cons r df)
  have "(\<Sum>k\<leftarrow>ks. \<Sum>r'\<leftarrow>filter (\<lambda>r'. keyf r' = Some k) (r # df). f r')
          = (\<Sum>k\<leftarrow>ks. (if keyf r = Some k then f r else 0)
                       + (\<Sum>r'\<leftarrow>filter (\<lambda>r'. keyf r' = Some k) df. f r'))"
    by (rule arg_cong [where f = sum_list]) simp
  also have "\<dots> = (\<Sum>k\<leftarrow>ks. if keyf r = Some k then f r else 0)
                   + (\<Sum>k\<leftarrow>ks. \<Sum>r'\<leftarrow>filter (\<lambda>r'. keyf r' = Some k) df. f r')"
    by (simp add: sum_list_addf)
  also have "(\<Sum>k\<leftarrow>ks. if keyf r = Some k then f r else 0) = (if keyf r \<noteq> None then f r else 0)"
    using Cons.prems by (auto simp: sum_list_delta [OF assms(1)])
  also have "(\<Sum>k\<leftarrow>ks. \<Sum>r'\<leftarrow>filter (\<lambda>r'. keyf r' = Some k) df. f r')
               = (\<Sum>r\<leftarrow>filter (\<lambda>r. keyf r \<noteq> None) df. f r)"
    using Cons by simp
  finally show ?case by simp
qed

lemma pd_sum_map: "pd_sum (map c df) = (\<Sum>r\<leftarrow>df. case c r of None \<Rightarrow> 0 | Some v \<Rightarrow> v)"
  by (simp add: pd_sum_def comp_def)

lemma groupby_sum_conserves:
  "(\<Sum>g\<leftarrow>groupby_sum keyf df. fst (snd g)) = pd_sum (map VOLUME (filter (\<lambda>r. keyf r \<noteq> None) df))"
  "(\<Sum>g\<leftarrow>groupby_sum keyf df. snd (snd g)) = pd_sum (map VALUE (filter (\<lambda>r. keyf r \<noteq> None) df))"
proof -
  let ?ks = "sort (remdups (List.map_filter keyf df))"
  have d: "distinct ?ks" by simp
  have c: "\<forall>r\<in>set df. \<forall>k. keyf r = Some k \<longrightarrow> k \<in> set ?ks"
    by (auto simp: set_map_filter)
  show "(\<Sum>g\<leftarrow>groupby_sum keyf df. fst (snd g)) = pd_sum (map VOLUME (filter (\<lambda>r. keyf r \<noteq> None) df))"
    using sum_list_groups [OF d c, of "\<lambda>r. case VOLUME r of None \<Rightarrow> 0 | Some v \<Rightarrow> v"]
    by (simp add: groupby_sum_def pd_sum_map comp_def)
  show "(\<Sum>g\<leftarrow>groupby_sum keyf df. snd (snd g)) = pd_sum (map VALUE (filter (\<lambda>r. keyf r \<noteq> None) df))"
    using sum_list_groups [OF d c, of "\<lambda>r. case VALUE r of None \<Rightarrow> 0 | Some v \<Rightarrow> v"]
    by (simp add: groupby_sum_def pd_sum_map comp_def)
qed

lemma groupby_sum_conserves_all:
  assumes "\<forall>r\<in>set df. keyf r \<noteq> None"
  shows "(\<Sum>g\<leftarrow>groupby_sum keyf df. fst (snd g)) = pd_sum (map VOLUME df)"
    and "(\<Sum>g\<leftarrow>groupby_sum keyf df. snd (snd g)) = pd_sum (map VALUE df)"
proof -
  from assms have "filter (\<lambda>r. keyf r \<noteq> None) df = df"
    by (simp add: filter_id_conv)
  then show "(\<Sum>g\<leftarrow>groupby_sum keyf df. fst (snd g)) = pd_sum (map VOLUME df)"
    and "(\<Sum>g\<leftarrow>groupby_sum keyf df. snd (snd g)) = pd_sum (map VALUE df)"
    using groupby_sum_conserves [of keyf df] by simp_all
qed

lemma fillna_REGION_keys: "\<forall>r\<in>set (fillna_REGION df). REGION r \<noteq> None"
  by (simp add: fillna_REGION_def)

lemma fillna_REGION_measures:
  "map VOLUME (fillna_REGION df) = map VOLUME df" "map VALUE (fillna_REGION df) = map VALUE df"
  by (simp_all add: fillna_REGION_def)

lemma map_STATE_keys: "\<forall>r\<in>set (map_STATE df). STATE r \<noteq> None"
  by (simp add: map_STATE_def Let_def)

lemma map_STATE_measures:
  "map VOLUME (map_STATE df) = map VOLUME df" "map VALUE (map_STATE df) = map VALUE df"
  by (simp_all add: map_STATE_def Let_def)

subsection \<open>Joining\<close>

lemma key_fillna0 [simp]: "key (fillna0 (k, s1, s2)) = k"
  by (simp add: fillna0_def Let_def)

lemma merge_outer_keys:
  "map key (map fillna0 (merge_outer agg1 agg2)) = sort (remdups (map fst agg1 @ map fst agg2))"
  by (simp add: merge_outer_def comp_def)

lemma merge_outer_row:
  assumes "m \<in> set (map fillna0 (merge_outer agg1 agg2))"
  shows "m = fillna0 (key m, map_of agg1 (key m), map_of agg2 (key m))"
  using assms by (auto simp: merge_outer_def)







lemma join_periods_keys:
  "set (map key (join_periods keyf df1 df2))
     = {k. \<exists>r\<in>set df1. keyf r = Some k} \<union> {k. \<exists>r\<in>set df2. keyf r = Some k}"
  unfolding join_periods_def merge_outer_keys
  by (simp add: groupby_sum_key_set [symmetric] image_Un)

subsection \<open>The tables of each level\<close>


lemma region_analysis_tables:
  assumes "load_data week1_file ''WITH 6010'' = Inr df1"
    and "load_data week2_file ''WITH 6010'' = Inr df2"
  defines "rc \<equiv> join_periods REGION (fillna_REGION df1) (fillna_REGION df2)"
  shows "region_analysis week1_file week2_file
           = Inr \<lparr>region_comparison = rc,
                  volume_table = map (\<lambda>m. (key m, VOLUME_1 m, VOLUME_2 m)) rc
                      @ [pair_total (map (\<lambda>m. (key m, VOLUME_1 m, VOLUME_2 m)) rc)],
                  value_table = map (\<lambda>m. (key m, VALUE_1 m, VALUE_2 m)) rc
                      @ [pair_total (map (\<lambda>m. (key m, VALUE_1 m, VALUE_2 m)) rc)],
                  diff_table = map diff_columns rc @ [diff_total (map diff_columns rc)]\<rparr>"
  using assms(1,2) by (simp add: region_analysis_def Let_def rc_def)

lemma state_analysis_rows:
  assumes "load_data week1_file ''WITH 6010'' = Inr df1"
    and "load_data week2_file ''WITH 6010'' = Inr df2"
  defines "sc \<equiv> map diff_columns (join_periods STATE (map_STATE df1) (map_STATE df2))"
  shows "state_analysis week1_file week2_file = Inr (sc @ [diff_total sc])"
  using assms(1,2) by (simp add: state_analysis_def Let_def sc_def)

lemma region_analysis_Inr:
  assumes "region_analysis week1_file week2_file = Inr t"
  obtains df1 df2 where "load_data week1_file ''WITH 6010'' = Inr df1"
    and "load_data week2_file ''WITH 6010'' = Inr df2"
  using assms by (auto simp: region_analysis_def split: sum.splits)

lemma state_analysis_Inr:
  assumes "state_analysis week1_file week2_file = Inr t"
  obtains df1 df2 where "load_data week1_file ''WITH 6010'' = Inr df1"
    and "load_data week2_file ''WITH 6010'' = Inr df2"
  using assms by (auto simp: state_analysis_def split: sum.splits)

lemma diff_total_columns:
  assumes "\<forall>r\<in>set rows. VOL_pctCHANGE r \<noteq> PInf \<and> VOL_pctCHANGE r \<noteq> NInf
                        \<and> VAL_pctCHANGE r \<noteq> PInf \<and> VAL_pctCHANGE r \<noteq> NInf"
  shows "diff_total rows =
           \<lparr>label = ''TOTAL'',
            VOL_DIFF = (\<Sum>r\<leftarrow>rows. VOL_DIFF r),
            VOL_pctCHANGE = Fin (\<Sum>r\<leftarrow>rows. case VOL_pctCHANGE r of Fin v \<Rightarrow> v | _ \<Rightarrow> 0),
            VAL_DIFF = (\<Sum>r\<leftarrow>rows. VAL_DIFF r),
            VAL_pctCHANGE = Fin (\<Sum>r\<leftarrow>rows. case VAL_pctCHANGE r of Fin v \<Rightarrow> v | _ \<Rightarrow> 0)\<rparr>"
proof -
  have "nansum (map VOL_pctCHANGE rows) = Fin (\<Sum>r\<leftarrow>rows. case VOL_pctCHANGE r of Fin v \<Rightarrow> v | _ \<Rightarrow> 0)"
    using assms nansum_Fin_or_NaN [of "map VOL_pctCHANGE rows"] by (simp add: comp_def)
  moreover have "nansum (map VAL_pctCHANGE rows) = Fin (\<Sum>r\<leftarrow>rows. case VAL_pctCHANGE r of Fin v \<Rightarrow> v | _ \<Rightarrow> 0)"
    using assms nansum_Fin_or_NaN [of "map VAL_pctCHANGE rows"] by (simp add: comp_def)
  ultimately show ?thesis
    by (simp add: diff_total_def)
qed

lemma diff_columns_not_inf:
  "\<forall>r\<in>set (map diff_columns ms). VOL_pctCHANGE r \<noteq> PInf \<and> VOL_pctCHANGE r \<noteq> NInf
                        \<and> VAL_pctCHANGE r \<noteq> PInf \<and> VAL_pctCHANGE r \<noteq> NInf"
  by (simp add: diff_columns_def Let_def pct_change_not_inf)

text \<open>
  Claim C2. Each table that gets a TOTAL row is its data rows followed by that one row.
  In the TOTAL row the volume, value and difference columns are the sums of the column
  over the data rows. The two percentage columns are the sums of the percentages of the
  data rows, taken as numbers (an entry that is NaN is skipped by the sum of pandas);
  they are not computed from the summed differences and bases.
\<close>

theorem total_row_sums_every_column:
  "(region_analysis week1_file week2_file = Inr t \<longrightarrow>
      (\<exists>rows. volume_table t = rows @ [(''TOTAL'', (\<Sum>r\<leftarrow>rows. fst (snd r)), (\<Sum>r\<leftarrow>rows. snd (snd r)))]
             \<and> rows = map (\<lambda>m. (key m, VOLUME_1 m, VOLUME_2 m)) (region_comparison t)) \<and>
      (\<exists>rows. value_table t = rows @ [(''TOTAL'', (\<Sum>r\<leftarrow>rows. fst (snd r)), (\<Sum>r\<leftarrow>rows. snd (snd r)))]
             \<and> rows = map (\<lambda>m. (key m, VALUE_1 m, VALUE_2 m)) (region_comparison t)) \<and>
      (\<exists>rows. diff_table t = rows @
                 [\<lparr>label = ''TOTAL'',
                   VOL_DIFF = (\<Sum>r\<leftarrow>rows. VOL_DIFF r),
                   VOL_pctCHANGE = Fin (\<Sum>r\<leftarrow>rows. case VOL_pctCHANGE r of Fin v \<Rightarrow> v | _ \<Rightarrow> 0),
                   VAL_DIFF = (\<Sum>r\<leftarrow>rows. VAL_DIFF r),
                   VAL_pctCHANGE = Fin (\<Sum>r\<leftarrow>rows. case VAL_pctCHANGE r of Fin v \<Rightarrow> v | _ \<Rightarrow> 0)\<rparr>]
             \<and> rows = map diff_columns (region_comparison t))) \<and>
   (state_analysis week1_file week2_file = Inr sc \<longrightarrow>
      (\<exists>rows. sc = rows @
                 [\<lparr>label = ''TOTAL'',
                   VOL_DIFF = (\<Sum>r\<leftarrow>rows. VOL_DIFF r),
                   VOL_pctCHANGE = Fin (\<Sum>r\<leftarrow>rows. case VOL_pctCHANGE r of Fin v \<Rightarrow> v | _ \<Rightarrow> 0),
                   VAL_DIFF = (\<Sum>r\<leftarrow>rows. VAL_DIFF r),
                   VAL_pctCHANGE = Fin (\<Sum>r\<leftarrow>rows. case VAL_pctCHANGE r of Fin v \<Rightarrow> v | _ \<Rightarrow> 0)\<rparr>]))"
proof (intro conjI impI)
  assume r: "region_analysis week1_file week2_file = Inr t"
  then obtain df1 df2 where l: "load_data week1_file ''WITH 6010'' = Inr df1"
      "load_data week2_file ''WITH 6010'' = Inr df2"
    by (rule region_analysis_Inr)
  define rc where "rc = join_periods REGION (fillna_REGION df1) (fillna_REGION df2)"
  have t: "t = \<lparr>region_comparison = rc,
                  volume_table = map (\<lambda>m. (key m, VOLUME_1 m, VOLUME_2 m)) rc
                      @ [pair_total (map (\<lambda>m. (key m, VOLUME_1 m, VOLUME_2 m)) rc)],
                  value_table = map (\<lambda>m. (key m, VALUE_1 m, VALUE_2 m)) rc
                      @ [pair_total (map (\<lambda>m. (key m, VALUE_1 m, VALUE_2 m)) rc)],
                  diff_table = map diff_columns rc @ [diff_total (map diff_columns rc)]\<rparr>"
    using region_analysis_tables [OF l] r by (simp add: rc_def)
  show "\<exists>rows. volume_table t = rows @ [(''TOTAL'', (\<Sum>r\<leftarrow>rows. fst (snd r)), (\<Sum>r\<leftarrow>rows. snd (snd r)))]
             \<and> rows = map (\<lambda>m. (key m, VOLUME_1 m, VOLUME_2 m)) (region_comparison t)"
    by (simp add: t pair_total_def)
  show "\<exists>rows. value_table t = rows @ [(''TOTAL'', (\<Sum>r\<leftarrow>rows. fst (snd r)), (\<Sum>r\<leftarrow>rows. snd (snd r)))]
             \<and> rows = map (\<lambda>m. (key m, VALUE_1 m, VALUE_2 m)) (region_comparison t)"
    by (simp add: t pair_total_def)
  have "diff_table t = map diff_columns (region_comparison t)
          @ [diff_total (map diff_columns (region_comparison t))]"
    by (simp add: t)
  then show "\<exists>rows. diff_table t = rows @
                 [\<lparr>label = ''TOTAL'',
                   VOL_DIFF = (\<Sum>r\<leftarrow>rows. VOL_DIFF r),
                   VOL_pctCHANGE = Fin (\<Sum>r\<leftarrow>rows. case VOL_pctCHANGE r of Fin v \<Rightarrow> v | _ \<Rightarrow> 0),
                   VAL_DIFF = (\<Sum>r\<leftarrow>rows. VAL_DIFF r),
                   VAL_pctCHANGE = Fin (\<Sum>r\<leftarrow>rows. case VAL_pctCHANGE r of Fin v \<Rightarrow> v | _ \<Rightarrow> 0)\<rparr>]
             \<and> rows = map diff_columns (region_comparison t)"
    using diff_total_columns [OF diff_columns_not_inf, of "region_comparison t"] by simp
next
  assume s: "state_analysis week1_file week2_file = Inr sc"
  then obtain df1 df2 where l: "load_data week1_file ''WITH 6010'' = Inr df1"
      "load_data week2_file ''WITH 6010'' = Inr df2"
    by (rule state_analysis_Inr)
  define ms where "ms = join_periods STATE (map_STATE df1) (map_STATE df2)"
  have "sc = map diff_columns ms @ [diff_total (map diff_columns ms)]"
    using state_analysis_rows [OF l] s by (simp add: ms_def)
  then show "\<exists>rows. sc = rows @
                 [\<lparr>label = ''TOTAL'',
                   VOL_DIFF = (\<Sum>r\<leftarrow>rows. VOL_DIFF r),
                   VOL_pctCHANGE = Fin (\<Sum>r\<leftarrow>rows. case VOL_pctCHANGE r of Fin v \<Rightarrow> v | _ \<Rightarrow> 0),
                   VAL_DIFF = (\<Sum>r\<leftarrow>rows. VAL_DIFF r),
                   VAL_pctCHANGE = Fin (\<Sum>r\<leftarrow>rows. case VAL_pctCHANGE r of Fin v \<Rightarrow> v | _ \<Rightarrow> 0)\<rparr>]"
    using diff_total_columns [OF diff_columns_not_inf, of ms] by simp
qed

subsection \<open>The example files at every level\<close>

lemma region_analysis_example:
  "region_analysis previous_week current_week
     = Inr \<lparr>region_comparison =
              [\<lparr>key = ''NORTH'', VOLUME_1 = 4, VALUE_1 = 40, VOLUME_2 = 4, VALUE_2 = 50\<rparr>,
               \<lparr>key = ''SOUTH'', VOLUME_1 = 100, VALUE_1 = 1000, VOLUME_2 = 150, VALUE_2 = 900\<rparr>,
               \<lparr>key = ''WEST'', VOLUME_1 = 0, VALUE_1 = 0, VOLUME_2 = 20, VALUE_2 = 5\<rparr>],
            volume_table =
              [(''NORTH'', 4, 4), (''SOUTH'', 100, 150), (''WEST'', 0, 20), (''TOTAL'', 104, 174)],
            value_table =
              [(''NORTH'', 40, 50), (''SOUTH'', 1000, 900), (''WEST'', 0, 5), (''TOTAL'', 1040, 955)],
            diff_table =
              [\<lparr>label = ''NORTH'', VOL_DIFF = 0, VOL_pctCHANGE = Fin 0,
                 VAL_DIFF = 10, VAL_pctCHANGE = Fin 25\<rparr>,
               \<lparr>label = ''SOUTH'', VOL_DIFF = 50, VOL_pctCHANGE = Fin 50,
                 VAL_DIFF = - 100, VAL_pctCHANGE = Fin (- 10)\<rparr>,
               \<lparr>label = ''WEST'', VOL_DIFF = 20, VOL_pctCHANGE = Fin 0,
                 VAL_DIFF = 5, VAL_pctCHANGE = Fin 0\<rparr>,
               \<lparr>label = ''TOTAL'', VOL_DIFF = 70, VOL_pctCHANGE = Fin 50,
                 VAL_DIFF = - 85, VAL_pctCHANGE = Fin 15\<rparr>]\<rparr>"
  by code_simp

lemma state_analysis_example:
  "state_analysis previous_week current_week
     = Inr [\<lparr>label = ''Kano'', VOL_DIFF = 0, VOL_pctCHANGE = Fin 0,
              VAL_DIFF = 10, VAL_pctCHANGE = Fin 25\<rparr>,
            \<lparr>label = ''Lagos'', VOL_DIFF = 50, VOL_pctCHANGE = Fin 50,
              VAL_DIFF = - 100, VAL_pctCHANGE = Fin (- 10)\<rparr>,
            \<lparr>label = ''Ogun'', VOL_DIFF = 20, VOL_pctCHANGE = Fin 0,
              VAL_DIFF = 5, VAL_pctCHANGE = Fin 0\<rparr>,
            \<lparr>label = ''TOTAL'', VOL_DIFF = 70, VOL_pctCHANGE = Fin 50,
              VAL_DIFF = - 85, VAL_pctCHANGE = Fin 15\<rparr>]"
  by code_simp




theorem total_row_sums_every_column_witness:
  "\<exists>t sc. region_analysis previous_week current_week = Inr t \<and>
          state_analysis previous_week current_week = Inr sc \<and>
          last (volume_table t) = (''TOTAL'', 104, 174) \<and>
          last (value_table t) = (''TOTAL'', 1040, 955) \<and>
          last (diff_table t) = \<lparr>label = ''TOTAL'', VOL_DIFF = 70, VOL_pctCHANGE = Fin 50,
                                 VAL_DIFF = - 85, VAL_pctCHANGE = Fin 15\<rparr> \<and>
          last sc = \<lparr>label = ''TOTAL'', VOL_DIFF = 70, VOL_pctCHANGE = Fin 50,
                     VAL_DIFF = - 85, VAL_pctCHANGE = Fin 15\<rparr> \<and>
          (\<exists>rows. diff_table t = rows @
                 [\<lparr>label = ''TOTAL'',
                   VOL_DIFF = (\<Sum>r\<leftarrow>rows. VOL_DIFF r),
                   VOL_pctCHANGE = Fin (\<Sum>r\<leftarrow>rows. case VOL_pctCHANGE r of Fin v \<Rightarrow> v | _ \<Rightarrow> 0),
                   VAL_DIFF = (\<Sum>r\<leftarrow>rows. VAL_DIFF r),
                   VAL_pctCHANGE = Fin (\<Sum>r\<leftarrow>rows. case VAL_pctCHANGE r of Fin v \<Rightarrow> v | _ \<Rightarrow> 0)\<rparr>]
             \<and> rows = map diff_columns (region_comparison t)) \<and>
          (\<exists>rows. sc = rows @
                 [\<lparr>label = ''TOTAL'',
                   VOL_DIFF = (\<Sum>r\<leftarrow>rows. VOL_DIFF r),
                   VOL_pctCHANGE = Fin (\<Sum>r\<leftarrow>rows. case VOL_pctCHANGE r of Fin v \<Rightarrow> v | _ \<Rightarrow> 0),
                   VAL_DIFF = (\<Sum>r\<leftarrow>rows. VAL_DIFF r),
                   VAL_pctCHANGE = Fin (\<Sum>r\<leftarrow>rows. case VAL_pctCHANGE r of Fin v \<Rightarrow> v | _ \<Rightarrow> 0)\<rparr>]) \<and>
          (70 / 104 * 100 :: rat) \<noteq> 50"
proof -
  obtain t where t: "region_analysis previous_week current_week = Inr t"
    and t1: "last (volume_table t) = (''TOTAL'', 104, 174)"
    and t2: "last (value_table t) = (''TOTAL'', 1040, 955)"
    and t3: "last (diff_table t) = \<lparr>label = ''TOTAL'', VOL_DIFF = 70, VOL_pctCHANGE = Fin 50,
                                 VAL_DIFF = - 85, VAL_pctCHANGE = Fin 15\<rparr>"
    using region_analysis_example by simp
  obtain sc where sc: "state_analysis previous_week current_week = Inr sc"
    and s1: "last sc = \<lparr>label = ''TOTAL'', VOL_DIFF = 70, VOL_pctCHANGE = Fin 50,
                     VAL_DIFF = - 85, VAL_pctCHANGE = Fin 15\<rparr>"
    using state_analysis_example by simp
  have n: "(70 / 104 * 100 :: rat) \<noteq> 50"
    by simp
  show ?thesis
    using total_row_sums_every_column [of previous_week current_week t sc] t sc t1 t2 t3 s1 n
    by blast
qed

subsection \<open>Rows of the comparisons\<close>

lemma region_bank_columns_simps [simp]:
  "REGION_BANK (region_bank_columns m) = key m"
  "VOLUME_w1 (region_bank_columns m) = round_half_even (VOLUME_1 m)"
  "VALUE_w1 (region_bank_columns m) = round_half_even (VALUE_1 m)"
  "VOLUME_w2 (region_bank_columns m) = round_half_even (VOLUME_2 m)"
  "VALUE_w2 (region_bank_columns m) = round_half_even (VALUE_2 m)"
  "VOLUME_DIFF (region_bank_columns m) = round_half_even (VOLUME_2 m - VOLUME_1 m)"
  "VALUE_DIFF (region_bank_columns m) = round_half_even (VALUE_2 m - VALUE_1 m)"
  "VOLUME_pct (region_bank_columns m) = pct_of_row (VOLUME_2 m - VOLUME_1 m) (VOLUME_1 m)"
  "VALUE_pct (region_bank_columns m) = pct_of_row (VALUE_2 m - VALUE_1 m) (VALUE_1 m)"
  by (simp_all add: region_bank_columns_def Let_def)

lemma diff_columns_simps [simp]:
  "label (diff_columns m) = key m"
  "VOL_DIFF (diff_columns m) = VOLUME_2 m - VOLUME_1 m"
  "VAL_DIFF (diff_columns m) = VALUE_2 m - VALUE_1 m"
  "VOL_pctCHANGE (diff_columns m) = pct_change (VOLUME_2 m - VOLUME_1 m) (VOLUME_1 m)"
  "VAL_pctCHANGE (diff_columns m) = pct_change (VALUE_2 m - VALUE_1 m) (VALUE_1 m)"
  by (simp_all add: diff_columns_def Let_def)





lemma map_of_groupby_sum:
  "map_of (groupby_sum keyf df) k =
     (if \<exists>r\<in>set df. keyf r = Some k
      then Some (pd_sum (map VOLUME (filter (\<lambda>r. keyf r = Some k) df)),
                 pd_sum (map VALUE (filter (\<lambda>r. keyf r = Some k) df)))
      else None)"
proof -
  have "map_of (map (\<lambda>k. (k, g k)) ks) k = (if k \<in> set ks then Some (g k) else None)" for g :: "'a \<Rightarrow> rat \<times> rat" and ks
    by (induction ks) auto
  then show ?thesis
    by (simp add: groupby_sum_def set_map_filter)
qed

lemma pd_sum_no_rows: "\<not> (\<exists>r\<in>set df. keyf r = Some k) \<Longrightarrow> filter (\<lambda>r. keyf r = Some k) df = []"
  by (simp add: filter_empty_conv)

lemma join_periods_sums:
  assumes "m \<in> set (join_periods keyf df1 df2)"
  shows "VOLUME_1 m = pd_sum (map VOLUME (filter (\<lambda>r. keyf r = Some (key m)) df1))"
    and "VALUE_1 m = pd_sum (map VALUE (filter (\<lambda>r. keyf r = Some (key m)) df1))"
    and "VOLUME_2 m = pd_sum (map VOLUME (filter (\<lambda>r. keyf r = Some (key m)) df2))"
    and "VALUE_2 m = pd_sum (map VALUE (filter (\<lambda>r. keyf r = Some (key m)) df2))"
proof -
  have row: "m = fillna0 (key m, map_of (groupby_sum keyf df1) (key m), map_of (groupby_sum keyf df2) (key m))"
    using assms unfolding join_periods_def by (rule merge_outer_row)
  have z: "pd_sum [] = 0" by (simp add: pd_sum_def)
  show "VOLUME_1 m = pd_sum (map VOLUME (filter (\<lambda>r. keyf r = Some (key m)) df1))"
    by (subst row) (simp add: map_of_groupby_sum fillna0_def pd_sum_no_rows z)
  show "VALUE_1 m = pd_sum (map VALUE (filter (\<lambda>r. keyf r = Some (key m)) df1))"
    by (subst row) (simp add: map_of_groupby_sum fillna0_def pd_sum_no_rows z)
  show "VOLUME_2 m = pd_sum (map VOLUME (filter (\<lambda>r. keyf r = Some (key m)) df2))"
    by (subst row) (simp add: map_of_groupby_sum fillna0_def pd_sum_no_rows z)
  show "VALUE_2 m = pd_sum (map VALUE (filter (\<lambda>r. keyf r = Some (key m)) df2))"
    by (subst row) (simp add: map_of_groupby_sum fillna0_def pd_sum_no_rows z)
qed

lemma pd_sum_Ints:
  assumes "\<forall>x\<in>set xs. \<forall>v. x = Some v \<longrightarrow> v \<in> \<int>"
  shows "pd_sum xs \<in> \<int>"
  using assms unfolding pd_sum_def
  by (induction xs) (auto split: option.splits)

lemma join_periods_Ints:
  assumes "\<forall>r\<in>set df1 \<union> set df2. (\<forall>v. VOLUME r = Some v \<longrightarrow> v \<in> \<int>) \<and> (\<forall>v. VALUE r = Some v \<longrightarrow> v \<in> \<int>)"
    and "m \<in> set (join_periods keyf df1 df2)"
  shows "VOLUME_1 m \<in> \<int> \<and> VALUE_1 m \<in> \<int> \<and> VOLUME_2 m \<in> \<int> \<and> VALUE_2 m \<in> \<int>"
  unfolding join_periods_sums [OF assms(2)]
  using assms(1) by (auto intro!: pd_sum_Ints) (metis UnCI)+

subsection \<open>Zero denominators\<close>

text \<open>
  Claim C1 asks for a percentage of exactly 0 whenever the prior-period base is zero, on
  the row-wise path and on the vectorised one. The row-wise paths do that
  (\<open>zero_base_row_wise\<close>, \<open>pct_of_totals_zero\<close>). The vectorised path divides first and
  replaces the two infinities only: when the base and the difference are both zero the
  quotient is NaN and stays (\<open>zero_base_vectorised\<close>). A region with volume 0 in both
  periods shows it.
\<close>

theorem region_zero_over_zero_is_NaN:
  "region_analysis
     (workbook_of [(''WITH 6010'', [data_row ''NORTH'' ''X'' ''KN'' 0 10])])
     (workbook_of [(''WITH 6010'', [data_row ''NORTH'' ''X'' ''KN'' 0 20])])
   = Inr \<lparr>region_comparison =
             [\<lparr>key = ''NORTH'', VOLUME_1 = 0, VALUE_1 = 10, VOLUME_2 = 0, VALUE_2 = 20\<rparr>],
          volume_table = [(''NORTH'', 0, 0), (''TOTAL'', 0, 0)],
          value_table = [(''NORTH'', 10, 20), (''TOTAL'', 10, 20)],
          diff_table =
            [\<lparr>label = ''NORTH'', VOL_DIFF = 0, VOL_pctCHANGE = NaN,
               VAL_DIFF = 10, VAL_pctCHANGE = Fin 100\<rparr>,
             \<lparr>label = ''TOTAL'', VOL_DIFF = 0, VOL_pctCHANGE = Fin 0,
               VAL_DIFF = 10, VAL_pctCHANGE = Fin 100\<rparr>]\<rparr>"
  by code_simp

lemma state_zero_over_zero_is_NaN:
  "state_analysis
     (workbook_of [(''WITH 6010'', [data_row ''NORTH'' ''X'' ''KN'' 0 10])])
     (workbook_of [(''WITH 6010'', [data_row ''NORTH'' ''X'' ''KN'' 0 20])])
   = Inr [\<lparr>label = ''Kano'', VOL_DIFF = 0, VOL_pctCHANGE = NaN,
            VAL_DIFF = 10, VAL_pctCHANGE = Fin 100\<rparr>,
          \<lparr>label = ''TOTAL'', VOL_DIFF = 0, VOL_pctCHANGE = Fin 0,
            VAL_DIFF = 10, VAL_pctCHANGE = Fin 100\<rparr>]"
  by code_simp

lemma zero_base_row_wise:
  "VOLUME_1 m = 0 \<Longrightarrow> VOLUME_pct (region_bank_columns m) = 0"
  "VALUE_1 m = 0 \<Longrightarrow> VALUE_pct (region_bank_columns m) = 0"
  by (simp_all add: pct_of_row_zero)

lemma zero_base_vectorised:
  "VOLUME_1 m = 0 \<Longrightarrow> VOLUME_2 m \<noteq> 0 \<Longrightarrow> VOL_pctCHANGE (diff_columns m) = Fin 0"
  "VALUE_1 m = 0 \<Longrightarrow> VALUE_2 m \<noteq> 0 \<Longrightarrow> VAL_pctCHANGE (diff_columns m) = Fin 0"
  "VOLUME_1 m = 0 \<Longrightarrow> VOLUME_2 m = 0 \<Longrightarrow> VOL_pctCHANGE (diff_columns m) = NaN"
  "VALUE_1 m = 0 \<Longrightarrow> VALUE_2 m = 0 \<Longrightarrow> VAL_pctCHANGE (diff_columns m) = NaN"
  by (simp_all add: pct_change_zero_base)

subsection \<open>Conservation of the sums\<close>

text \<open>
  Claim C5 says that grouping keeps the sums of VOLUME and VALUE. A group key with an
  empty cell belongs to no group. The region and the state blocks fill such cells with
  UNKNOWN before they group, so nothing is lost there (\<open>region_grouping_conserves\<close>,
  \<open>state_grouping_conserves\<close>). \<^verbatim>\<open>region_bank_comparison\<close> groups without filling: a row
  with no REGION or no BANK is in no group and its VOLUME and VALUE are missing from the
  aggregate.
\<close>

theorem region_bank_grouping_loses_rows:
  "load_data (workbook_of [(''WITH 6010'',
       [data_row ''SOUTH'' ''X'' ''LA'' 100 1000,
        \<lparr>col0 = Null, REGION = None, BANK = Some ''Y'', STATE = Some ''OG'',
          VOLUME = Some 5, VALUE = Some 50\<rparr>])]) ''WITH 6010''
     = Inr [data_row ''SOUTH'' ''X'' ''LA'' 100 1000,
            \<lparr>col0 = Null, REGION = None, BANK = Some ''Y'', STATE = Some ''OG'',
              VOLUME = Some 5, VALUE = Some 50\<rparr>] \<and>
   groupby_sum region_bank_key
       [data_row ''SOUTH'' ''X'' ''LA'' 100 1000,
        \<lparr>col0 = Null, REGION = None, BANK = Some ''Y'', STATE = Some ''OG'',
          VOLUME = Some 5, VALUE = Some 50\<rparr>]
     = [((''SOUTH'', ''X''), 100, 1000)] \<and>
   pd_sum (map VOLUME
       [data_row ''SOUTH'' ''X'' ''LA'' 100 1000,
        \<lparr>col0 = Null, REGION = None, BANK = Some ''Y'', STATE = Some ''OG'',
          VOLUME = Some 5, VALUE = Some 50\<rparr>]) = 105 \<and>
   pd_sum (map VALUE
       [data_row ''SOUTH'' ''X'' ''LA'' 100 1000,
        \<lparr>col0 = Null, REGION = None, BANK = Some ''Y'', STATE = Some ''OG'',
          VOLUME = Some 5, VALUE = Some 50\<rparr>]) = 1050"
  by code_simp

lemma region_grouping_conserves:
  "(\<Sum>g\<leftarrow>groupby_sum REGION (fillna_REGION df). fst (snd g)) = pd_sum (map VOLUME df)"
  "(\<Sum>g\<leftarrow>groupby_sum REGION (fillna_REGION df). snd (snd g)) = pd_sum (map VALUE df)"
  using groupby_sum_conserves_all [OF fillna_REGION_keys, of df]
  by (simp_all add: fillna_REGION_measures)

lemma state_grouping_conserves:
  "(\<Sum>g\<leftarrow>groupby_sum STATE (map_STATE df). fst (snd g)) = pd_sum (map VOLUME df)"
  "(\<Sum>g\<leftarrow>groupby_sum STATE (map_STATE df). snd (snd g)) = pd_sum (map VALUE df)"
  using groupby_sum_conserves_all [OF map_STATE_keys, of df]
  by (simp_all add: map_STATE_measures)

lemma region_bank_grouping_conserves:
  assumes "\<forall>r\<in>set df. REGION r \<noteq> None \<and> BANK r \<noteq> None"
  shows "(\<Sum>g\<leftarrow>groupby_sum region_bank_key df. fst (snd g)) = pd_sum (map VOLUME df)"
    and "(\<Sum>g\<leftarrow>groupby_sum region_bank_key df. snd (snd g)) = pd_sum (map VALUE df)"
proof -
  from assms have "\<forall>r\<in>set df. region_bank_key r \<noteq> None"
    by (auto simp: region_bank_key_def split: option.splits)
  then show "(\<Sum>g\<leftarrow>groupby_sum region_bank_key df. fst (snd g)) = pd_sum (map VOLUME df)"
    and "(\<Sum>g\<leftarrow>groupby_sum region_bank_key df. snd (snd g)) = pd_sum (map VALUE df)"
    by (rule groupby_sum_conserves_all)+
qed

subsection \<open>Differences\<close>




subsection \<open>Rounding of the joined measures\<close>





subsection \<open>Percentages with a nonzero base\<close>




end
